theory Spec2Isabelle
  imports Complex_Main
begin

section \<open>JavaScript values of a parsed request body\<close>

text \<open>
  \<open>express.json()\<close> parses the request body into a JavaScript object; the handlers of
  \<open>index.js\<close> destructure it, so that a property the request does not carry is
  \<open>undefined\<close>. A number is modelled by its real value: the rounding of doubles, NaN and
  the infinities are not represented.
\<close>

datatype jsval =
    JUndefined
  | JNull
  | JBool bool
  | JNum real
  | JStr string
  | JArr "jsval list"
  | JObj "(string \<times> jsval) list"

type_synonym body = "string \<Rightarrow> jsval"

text \<open>The test \<open>!v\<close> of the source holds exactly where \<open>truthy v\<close> fails.\<close>

fun truthy :: "jsval \<Rightarrow> bool" where
  "truthy JUndefined = False"
| "truthy JNull = False"
| "truthy (JBool b) = b"
| "truthy (JNum r) = (r \<noteq> 0)"
| "truthy (JStr s) = (s \<noteq> [])"
| "truthy (JArr xs) = True"
| "truthy (JObj kvs) = True"

fun isArray :: "jsval \<Rightarrow> bool" where
  "isArray (JArr xs) = True"
| "isArray v = False"

datatype error = TypeError | RangeError | ValidationError

subsection \<open>Decimal rendering and substring search\<close>

definition digitChar :: "nat \<Rightarrow> char" where
  "digitChar d = ''0123456789'' ! (d mod 10)"

function showNat :: "nat \<Rightarrow> string" where
  "showNat n = (if n < 10 then [digitChar n] else showNat (n div 10) @ [digitChar (n mod 10)])"
  by pat_completeness auto
termination
  by (relation "measure id") auto

declare showNat.simps [simp del]

definition showInt :: "int \<Rightarrow> string" where
  "showInt i = (if i < 0 then CHR ''-'' # showNat (nat (- i)) else showNat (nat i))"

fun startsWith :: "string \<Rightarrow> string \<Rightarrow> bool" where
  "startsWith [] hay = True"
| "startsWith (c # cs) [] = False"
| "startsWith (c # cs) (h # hay) = (c = h \<and> startsWith cs hay)"

fun strIncludes :: "string \<Rightarrow> string \<Rightarrow> bool" where
  "strIncludes needle [] = (needle = [])"
| "strIncludes needle (h # hay) = (startsWith needle (h # hay) \<or> strIncludes needle hay)"

text \<open>
  \<open>v.includes(n)\<close> for an integer \<open>n\<close>: \<open>Array.prototype.includes\<close> compares with
  SameValueZero, so only a number element of the same value matches;
  \<open>String.prototype.includes\<close> searches for the decimal rendering of \<open>n\<close>; every other
  value has no callable \<open>includes\<close> and the call throws a TypeError.
\<close>

fun js_includes :: "jsval \<Rightarrow> int \<Rightarrow> error + bool" where
  "js_includes (JArr xs) n = Inr (JNum (of_int n) \<in> set xs)"
| "js_includes (JStr s) n = Inr (strIncludes (showInt n) s)"
| "js_includes v n = Inl TypeError"

text \<open>\<open>xs.map(f)\<close> with a callback that may throw: the first throw aborts the map.\<close>

fun mapM :: "('a \<Rightarrow> error + 'b) \<Rightarrow> 'a list \<Rightarrow> error + 'b list" where
  "mapM f [] = Inr []"
| "mapM f (x # xs) =
     (case f x of
        Inl e \<Rightarrow> Inl e
      | Inr y \<Rightarrow> (case mapM f xs of Inl e \<Rightarrow> Inl e | Inr ys \<Rightarrow> Inr (y # ys)))"

section \<open>The store\<close>

text \<open>
  The rows the handlers read and write through the Prisma client. A slot row carries the
  fields the source uses: its \<open>id\<close>, \<open>slotNumber\<close> and \<open>status\<close>; a parking-lot row its
  \<open>id\<close>, \<open>name\<close>, \<open>location\<close>, \<open>latitude\<close>, \<open>longitude\<close> and \<open>totalSlots\<close>, and, when
  the query says \<open>include: { slots: true }\<close>, its \<open>slots\<close>.
\<close>

record slotCreate =
  slotNumber :: int
  status :: bool

record slot = slotCreate +
  slotId :: nat

record parkingLot =
  lotId :: nat
  name :: string
  location :: string
  latitude :: real
  longitude :: real
  totalSlots :: int

record parkingLotWithSlots = parkingLot +
  slots :: "slot list"

text \<open>
  The schema of the tables is not part of the source, and with it what the integer column
  \<open>totalSlots\<close> makes of the number a request gives: it is a field of the store,
  \<open>totalSlotsColumn\<close>, that yields the integer the column holds for that number, or
  nothing where the client refuses the number. Nothing is assumed of it.
\<close>

record store =
  lots :: "parkingLotWithSlots list"
  nextLotId :: nat
  nextSlotId :: nat
  totalSlotsColumn :: "real \<Rightarrow> int option"

text \<open>
  One such column, for the concrete stores of the examples: it holds the integer part of
  the number and refuses what does not fit 32 bits.
\<close>

definition int32Column :: "real \<Rightarrow> int option" where
  "int32Column r =
     (let k = (if r < 0 then \<lceil>r\<rceil> else \<lfloor>r\<rfloor>)
      in if - (2 ^ 31) \<le> k \<and> k < 2 ^ 31 then Some k else None)"

definition emptyStore :: store where
  "emptyStore = \<lparr>lots = [], nextLotId = 0, nextSlotId = 0, totalSlotsColumn = int32Column\<rparr>"

subsection \<open>Queries\<close>

text \<open>
  Modelled from the spec: the Prisma client and the schema of the two tables are not part
  of the source file. The store contract of the design (lookup of a facility by name,
  creation of a facility with its slots, batch update of slot flags, cascading deletion)
  is written out over the rows above. A \<open>where: { name }\<close> filter on the string column
  compares names; Prisma drops a filter whose value is \<open>undefined\<close>, so the first row is
  found; any other value is refused by the client's validation, which throws.
\<close>

fun findFirstIncludeSlots :: "jsval \<Rightarrow> store \<Rightarrow> error + parkingLotWithSlots option" where
  "findFirstIncludeSlots (JStr n) st = Inr (find (\<lambda>lot. name lot = n) (lots st))"
| "findFirstIncludeSlots JUndefined st = Inr (find (\<lambda>lot. True) (lots st))"
| "findFirstIncludeSlots v st = Inl ValidationError"

definition findFirst :: "jsval \<Rightarrow> store \<Rightarrow> error + parkingLot option" where
  "findFirst v st = map_sum id (map_option parkingLot.truncate) (findFirstIncludeSlots v st)"

definition findManyIncludeSlots :: "store \<Rightarrow> parkingLotWithSlots list" where
  "findManyIncludeSlots st = lots st"

definition findMany :: "store \<Rightarrow> parkingLot list" where
  "findMany st = map parkingLot.truncate (lots st)"

text \<open>
  \<open>prisma.parkingLot.create\<close> with nested slot creation: the data must fit the columns
  (two strings, two numbers, and for \<open>totalSlots\<close> a number the integer column takes),
  the new rows get fresh identifiers.
\<close>

definition withIds :: "nat \<Rightarrow> slotCreate list \<Rightarrow> slot list" where
  "withIds k cs = map (\<lambda>(i, c). slotCreate.extend c \<lparr>slotId = i\<rparr>) (zip [k ..< k + length cs] cs)"

definition prismaCreate ::
  "jsval \<Rightarrow> jsval \<Rightarrow> jsval \<Rightarrow> jsval \<Rightarrow> jsval \<Rightarrow> slotCreate list \<Rightarrow> store
     \<Rightarrow> error + (parkingLotWithSlots \<times> store)" where
  "prismaCreate n l la lo t cs st =
     (case (n, l, la, lo, t) of
        (JStr n', JStr l', JNum la', JNum lo', JNum t') \<Rightarrow>
          (case totalSlotsColumn st t' of
             None \<Rightarrow> Inl ValidationError
           | Some k \<Rightarrow>
               (let lot = \<lparr>lotId = nextLotId st, name = n', location = l', latitude = la',
                            longitude = lo', totalSlots = k,
                            slots = withIds (nextSlotId st) cs\<rparr>
                in Inr (lot, st\<lparr>lots := lots st @ [lot], nextLotId := Suc (nextLotId st),
                                 nextSlotId := nextSlotId st + length cs\<rparr>)))
      | _ \<Rightarrow> Inl ValidationError)"

text \<open>
  The nested \<open>updateMany\<close> of \<open>prisma.parkingLot.update\<close>: each entry sets the status of
  the slots of that lot whose \<open>id\<close> it names, in the order of the entries.
\<close>

definition updateManySlots :: "(nat \<times> bool) list \<Rightarrow> slot list \<Rightarrow> slot list" where
  "updateManySlots ups ss =
     fold (\<lambda>(i, b) acc. map (\<lambda>s. if slotId s = i then s\<lparr>status := b\<rparr> else s) acc) ups ss"

definition prismaUpdate :: "nat \<Rightarrow> (nat \<times> bool) list \<Rightarrow> store \<Rightarrow> store" where
  "prismaUpdate lid ups st =
     st\<lparr>lots := map (\<lambda>lot. if lotId lot = lid
                                then lot\<lparr>slots := updateManySlots ups (slots lot)\<rparr> else lot)
                      (lots st)\<rparr>"

text \<open>\<open>prisma.parkingLot.delete\<close> by id; the slots of the row go with it.\<close>

definition prismaDelete :: "nat \<Rightarrow> store \<Rightarrow> store" where
  "prismaDelete lid st = st\<lparr>lots := filter (\<lambda>lot. lotId lot \<noteq> lid) (lots st)\<rparr>"

section \<open>The handlers of index.js\<close>

text \<open>
  A handler answers with a status code and either a JSON payload or a \<open>{ message }\<close>
  object: 400 is the invalid request, 404 the facility that is not found, 500 the
  catch-all of each handler's \<open>try\<close>.
\<close>

datatype 'a response = Json nat 'a | Message nat string

subsection \<open>GET /api/parking-lots\<close>

definition parking_lots :: "store \<Rightarrow> parkingLotWithSlots list response" where
  "parking_lots st = Json 200 (findManyIncludeSlots st)"

subsection \<open>POST /api/nearby-parking-lots\<close>

text \<open>
  \<open>calculateDistanceInKM.js\<close> is imported by the source and not part of it: the distance
  function is the parameter \<open>calculateDistanceInKM\<close>, applied to the two values of the body and the two
  columns of the row.
\<close>

type_synonym distance = "jsval \<Rightarrow> jsval \<Rightarrow> real \<Rightarrow> real \<Rightarrow> real"

definition nearbyParkingLots :: "distance \<Rightarrow> jsval \<Rightarrow> jsval \<Rightarrow> parkingLot list \<Rightarrow> parkingLot list" where
  "nearbyParkingLots calculateDistanceInKM userLat userLon parkingLots =
     filter (\<lambda>lot. calculateDistanceInKM userLat userLon (latitude lot) (longitude lot) \<le> 10) parkingLots"

definition nearby_parking_lots :: "distance \<Rightarrow> body \<Rightarrow> store \<Rightarrow> parkingLot list response" where
  "nearby_parking_lots calculateDistanceInKM b st =
     (let userLat = b ''userLat''; userLon = b ''userLon'' in
      if \<not> truthy userLat \<or> \<not> truthy userLon
      then Message 400 ''User location (latitude, longitude) is required''
      else Json 200 (nearbyParkingLots calculateDistanceInKM userLat userLon (findMany st)))"

subsection \<open>POST /api/lot-details\<close>

text \<open>\<open>x.toFixed(2)\<close>: the nearest multiple of 1/100, the larger one at a tie.\<close>

definition fixed2 :: "real \<Rightarrow> string" where
  "fixed2 x =
     (let n = nat \<lfloor>x * 100 + 1 / 2\<rfloor>
      in showNat (n div 100) @ ''.'' @ [digitChar (n div 10), digitChar n])"

definition toFixed2 :: "real \<Rightarrow> string" where
  "toFixed2 x = (if x < 0 then CHR ''-'' # fixed2 (- x) else fixed2 x)"

record responseData =
  parkingLotName :: string
  latitude' :: real
  longitude' :: real
  totalSlots' :: int
  availableSlots :: int
  filledSlots :: int
  distance :: "string option"

definition lot_details :: "distance \<Rightarrow> body \<Rightarrow> store \<Rightarrow> responseData response" where
  "lot_details calculateDistanceInKM b st =
     (let userLat = b ''userLat''; userLon = b ''userLon'' in
      case findFirstIncludeSlots (b ''parkingLotName'') st of
        Inl e \<Rightarrow> Message 500 ''Internal server error''
      | Inr None \<Rightarrow> Message 404 ''Parking lot not found''
      | Inr (Some parkingLot) \<Rightarrow>
          (let total = int (length (slots parkingLot));
               filled = int (length (filter (\<lambda>slot. \<not> status slot) (slots parkingLot)));
               available = total - filled;
               responseData = \<lparr>parkingLotName = name parkingLot,
                                latitude' = latitude parkingLot,
                                longitude' = longitude parkingLot,
                                totalSlots' = total,
                                availableSlots = available,
                                filledSlots = filled,
                                distance = None\<rparr>
           in Json 200
                (if truthy userLat \<and> truthy userLon
                 then responseData\<lparr>distance :=
                        Some (toFixed2 (calculateDistanceInKM userLat userLon (latitude parkingLot)
                                          (longitude parkingLot)))\<rparr>
                 else responseData)))"

subsection \<open>PUT /api/update-parking-lot\<close>

text \<open>
  The slots of a new lot: \<open>Array.from({ length: totalSlots }, ...)\<close> numbers them from 1
  and marks as filled the numbers that \<open>filledSlots\<close> includes.
\<close>

definition newSlot :: "jsval \<Rightarrow> int \<Rightarrow> error + slotCreate" where
  "newSlot filled n =
     (case js_includes filled n of
        Inl e \<Rightarrow> Inl e
      | Inr b \<Rightarrow> Inr \<lparr>slotNumber = n, status = (if b then True else False)\<rparr>)"

text \<open>The callback of the update: \<open>filledSlots\<close> is asked first, \<open>freeSlots\<close> only after.\<close>

definition updateSlot :: "jsval \<Rightarrow> jsval \<Rightarrow> slot \<Rightarrow> error + slot" where
  "updateSlot filled free s =
     (case js_includes filled (slotNumber s) of
        Inl e \<Rightarrow> Inl e
      | Inr True \<Rightarrow> Inr (s\<lparr>status := True\<rparr>)
      | Inr False \<Rightarrow>
          (case js_includes free (slotNumber s) of
             Inl e \<Rightarrow> Inl e
           | Inr True \<Rightarrow> Inr (s\<lparr>status := False\<rparr>)
           | Inr False \<Rightarrow> Inr s))"

definition invalidRequest :: string where
  "invalidRequest = ''Invalid request. Ensure name, location, latitude, longitude, totalSlots, filledSlots, and freeSlots are provided.''"

text \<open>
  \<open>Array.from({ length: len }, (_, index) => f(index + 1))\<close> for a number \<open>len\<close>: the
  length is the integer part of \<open>len\<close>, and no element when that is below 1; a length of
  \<open>2^32\<close> or more is no array length and throws a RangeError.
\<close>

definition arrayFrom :: "real \<Rightarrow> (int \<Rightarrow> error + 'a) \<Rightarrow> error + 'a list" where
  "arrayFrom len f = (if 2 ^ 32 \<le> \<lfloor>len\<rfloor> then Inl RangeError else mapM f [1 .. \<lfloor>len\<rfloor>])"

text \<open>
  A \<open>totalSlots\<close> that is not a number never reaches the table: the client refuses it,
  whatever \<open>Array.from\<close> made of it.
\<close>

definition update_parking_lot ::
  "body \<Rightarrow> store \<Rightarrow> (string \<times> parkingLotWithSlots) response \<times> store" where
  "update_parking_lot b st =
     (let name = b ''name''; location = b ''location''; latitude = b ''latitude'';
          longitude = b ''longitude''; totalSlots = b ''totalSlots'';
          filledSlots = b ''filledSlots''; freeSlots = b ''freeSlots'' in
      case findFirstIncludeSlots name st of
        Inl e \<Rightarrow> (Message 500 ''Internal Server Error'', st)
      | Inr None \<Rightarrow>
          if \<not> truthy name \<or> \<not> truthy location \<or> \<not> truthy latitude \<or> \<not> truthy longitude
             \<or> \<not> truthy totalSlots \<or> \<not> isArray filledSlots \<or> \<not> isArray freeSlots
          then (Message 400 invalidRequest, st)
          else
            (case totalSlots of
               JNum t \<Rightarrow>
                 (case arrayFrom t (newSlot filledSlots) of
                    Inl e \<Rightarrow> (Message 500 ''Internal Server Error'', st)
                  | Inr cs \<Rightarrow>
                      (case prismaCreate name location latitude longitude totalSlots cs st of
                         Inl e \<Rightarrow> (Message 500 ''Internal Server Error'', st)
                       | Inr (parkingLot, st') \<Rightarrow>
                           (Json 201 (''Parking lot created successfully.'', parkingLot), st')))
             | _ \<Rightarrow> (Message 500 ''Internal Server Error'', st))
      | Inr (Some parkingLot) \<Rightarrow>
          (case mapM (updateSlot filledSlots freeSlots) (slots parkingLot) of
             Inl e \<Rightarrow> (Message 500 ''Internal Server Error'', st)
           | Inr updatedSlots \<Rightarrow>
               (Json 200 (''Parking lot and slot statuses updated successfully.'',
                          parkingLot\<lparr>slots := updatedSlots\<rparr>),
                prismaUpdate (lotId parkingLot)
                  (map (\<lambda>slot. (slotId slot, status slot)) updatedSlots) st)))"

subsection \<open>DELETE /api/parking-lots/:name\<close>

text \<open>The name is a segment of the path, hence a string.\<close>

definition delete_parking_lot :: "string \<Rightarrow> store \<Rightarrow> unit response \<times> store" where
  "delete_parking_lot nm st =
     (case findFirst (JStr nm) st of
        Inl e \<Rightarrow> (Message 500 ''Internal Server Error'', st)
      | Inr None \<Rightarrow> (Message 404 (''Parking lot '' @ [CHR 0x27] @ nm @ [CHR 0x27] @ '' not found''), st)
      | Inr (Some parkingLot) \<Rightarrow>
          (Message 200 (''Parking lot '' @ [CHR 0x27] @ nm @ [CHR 0x27] @ '' deleted successfully''),
           prismaDelete (lotId parkingLot) st))"

section \<open>Well-formed and reachable stores\<close>

text \<open>
  Identifiers are keys of their tables and were handed out before the next fresh one;
  no two facilities share a name.
\<close>

definition wf_store :: "store \<Rightarrow> bool" where
  "wf_store st \<longleftrightarrow>
     distinct (map lotId (lots st)) \<and> distinct (map name (lots st)) \<and>
     (\<forall>lot \<in> set (lots st).
        lotId lot < nextLotId st \<and> distinct (map slotId (slots lot)) \<and>
        (\<forall>s \<in> set (slots lot). slotId s < nextSlotId st))"

text \<open>The stores the two writing handlers produce from a store without rows.\<close>

inductive reachable :: "store \<Rightarrow> bool" where
  initial: "lots st = [] \<Longrightarrow> reachable st"
| reconcile: "reachable st \<Longrightarrow> reachable (snd (update_parking_lot b st))"
| delete: "reachable st \<Longrightarrow> reachable (snd (delete_parking_lot nm st))"

subsection \<open>Example requests\<close>

definition request :: "(string \<times> jsval) list \<Rightarrow> body" where
  "request kvs k = (case map_of kvs k of None \<Rightarrow> JUndefined | Some v \<Rightarrow> v)"

definition createLotA :: body where
  "createLotA = request
     [(''name'', JStr ''Lot-A''), (''location'', JStr ''Main Street''),
      (''latitude'', JNum 12.5), (''longitude'', JNum 77.5), (''totalSlots'', JNum 3),
      (''filledSlots'', JArr [JNum 2]), (''freeSlots'', JArr [])]"

definition lotA :: parkingLotWithSlots where
  "lotA = \<lparr>lotId = 0, name = ''Lot-A'', location = ''Main Street'', latitude = 12.5,
            longitude = 77.5, totalSlots = 3,
            slots = [\<lparr>slotNumber = 1, status = False, slotId = 0\<rparr>,
                     \<lparr>slotNumber = 2, status = True, slotId = 1\<rparr>,
                     \<lparr>slotNumber = 3, status = False, slotId = 2\<rparr>]\<rparr>"

definition storeA :: store where
  "storeA = \<lparr>lots = [lotA], nextLotId = 1, nextSlotId = 3, totalSlotsColumn = int32Column\<rparr>"

definition fillAndFree1 :: body where
  "fillAndFree1 = request
     [(''name'', JStr ''Lot-A''), (''filledSlots'', JArr [JNum 1]), (''freeSlots'', JArr [JNum 1])]"

definition fill99 :: body where
  "fill99 = request
     [(''name'', JStr ''Lot-A''), (''filledSlots'', JArr [JNum 99]), (''freeSlots'', JArr [])]"

definition createLotZ :: body where
  "createLotZ = request
     [(''name'', JStr ''Lot-Z''), (''location'', JStr ''Main Street''),
      (''latitude'', JNum 12.5), (''longitude'', JNum 77.5), (''totalSlots'', JNum 0),
      (''filledSlots'', JArr []), (''freeSlots'', JArr [])]"

definition createEmptyLot :: body where
  "createEmptyLot = request
     [(''name'', JStr ''Lot-E''), (''location'', JStr ''Main Street''),
      (''latitude'', JNum 12.5), (''longitude'', JNum 77.5), (''totalSlots'', JNum (- 2)),
      (''filledSlots'', JArr []), (''freeSlots'', JArr [])]"

definition lotE :: parkingLotWithSlots where
  "lotE = \<lparr>lotId = 0, name = ''Lot-E'', location = ''Main Street'', latitude = 12.5,
            longitude = 77.5, totalSlots = - 2, slots = []\<rparr>"

definition storeE :: store where
  "storeE = \<lparr>lots = [lotE], nextLotId = 1, nextSlotId = 0, totalSlotsColumn = int32Column\<rparr>"

definition fillAll :: body where
  "fillAll = request [(''name'', JStr ''Lot-A''), (''filledSlots'', JArr [JNum 1, JNum 2, JNum 3])]"

definition fillNumber :: body where
  "fillNumber = request [(''name'', JStr ''Lot-A''), (''filledSlots'', JNum 5), (''freeSlots'', JArr [])]"

definition fillOne :: body where
  "fillOne = request [(''name'', JStr ''Lot-A''), (''filledSlots'', JArr [JNum 1])]"

definition nearBody :: body where
  "nearBody = request [(''userLat'', JNum 12.5), (''userLon'', JNum 77.5)]"

definition equatorBody :: body where
  "equatorBody = request [(''userLat'', JNum 0), (''userLon'', JNum 77.5)]"


definition fillAllNullFree :: body where
  "fillAllNullFree = request
     [(''name'', JStr ''Lot-A''), (''filledSlots'', JArr [JNum 3, JNum 2, JNum 1]),
      (''freeSlots'', JNull)]"

section \<open>Properties of the helpers\<close>

lemma mapM_total:
  "(\<And>x. x \<in> set xs \<Longrightarrow> f x = Inr (g x)) \<Longrightarrow> mapM f xs = Inr (map g xs)"
  by (induction xs) simp_all

lemma newSlot_array:
  "newSlot (JArr fl) n = Inr \<lparr>slotNumber = n, status = (JNum (of_int n) \<in> set fl)\<rparr>"
  by (simp add: newSlot_def)

lemma isArray_iff: "isArray v \<longleftrightarrow> (\<exists>xs. v = JArr xs)"
  by (cases v) simp_all

lemma prismaCreate_Inr:
  assumes "prismaCreate n l la lo t cs st = Inr (lot, st')"
  shows "\<exists>n' l' la' lo' t' k.
           n = JStr n' \<and> l = JStr l' \<and> la = JNum la' \<and> lo = JNum lo' \<and> t = JNum t' \<and>
           totalSlotsColumn st t' = Some k \<and>
           lot = \<lparr>lotId = nextLotId st, name = n', location = l', latitude = la',
                  longitude = lo', totalSlots = k, slots = withIds (nextSlotId st) cs\<rparr> \<and>
           st' = st\<lparr>lots := lots st @ [lot], nextLotId := Suc (nextLotId st),
                    nextSlotId := nextSlotId st + length cs\<rparr>"
proof -
  from assms obtain n' where n: "n = JStr n'"
    by (cases n) (simp_all add: prismaCreate_def)
  from assms n obtain l' where l: "l = JStr l'"
    by (cases l) (simp_all add: prismaCreate_def)
  from assms n l obtain la' where la: "la = JNum la'"
    by (cases la) (simp_all add: prismaCreate_def)
  from assms n l la obtain lo' where lo: "lo = JNum lo'"
    by (cases lo) (simp_all add: prismaCreate_def)
  from assms n l la lo obtain r where t: "t = JNum r"
    by (cases t) (simp_all add: prismaCreate_def)
  from assms n l la lo t obtain k where k: "totalSlotsColumn st r = Some k"
    by (cases "totalSlotsColumn st r") (simp_all add: prismaCreate_def)
  from assms n l la lo t k show ?thesis
    by (auto simp: prismaCreate_def Let_def)
qed


lemma arrayFrom_newSlot:
  "arrayFrom t (newSlot (JArr fl)) =
     (if 2 ^ 32 \<le> \<lfloor>t\<rfloor> then Inl RangeError
      else Inr (map (\<lambda>i. \<lparr>slotNumber = i, status = (JNum (of_int i) \<in> set fl)\<rparr>) [1 .. \<lfloor>t\<rfloor>]))"
proof -
  have "mapM (newSlot (JArr fl)) [1 .. \<lfloor>t\<rfloor>] =
      Inr (map (\<lambda>i. \<lparr>slotNumber = i, status = (JNum (of_int i) \<in> set fl)\<rparr>) [1 .. \<lfloor>t\<rfloor>])"
    by (rule mapM_total) (rule newSlot_array)
  then show ?thesis by (simp add: arrayFrom_def)
qed

lemma update_absent:
  assumes "findFirstIncludeSlots (b ''name'') st = Inr None"
  shows "update_parking_lot b st =
     (if \<not> truthy (b ''name'') \<or> \<not> truthy (b ''location'') \<or> \<not> truthy (b ''latitude'')
         \<or> \<not> truthy (b ''longitude'') \<or> \<not> truthy (b ''totalSlots'')
         \<or> \<not> isArray (b ''filledSlots'') \<or> \<not> isArray (b ''freeSlots'')
      then (Message 400 invalidRequest, st)
      else
        (case b ''totalSlots'' of
           JNum t \<Rightarrow>
             (case arrayFrom t (newSlot (b ''filledSlots'')) of
                Inl e \<Rightarrow> (Message 500 ''Internal Server Error'', st)
              | Inr cs \<Rightarrow>
                  (case prismaCreate (b ''name'') (b ''location'') (b ''latitude'')
                          (b ''longitude'') (b ''totalSlots'') cs st of
                     Inl e \<Rightarrow> (Message 500 ''Internal Server Error'', st)
                   | Inr (parkingLot, st') \<Rightarrow>
                       (Json 201 (''Parking lot created successfully.'', parkingLot), st')))
         | _ \<Rightarrow> (Message 500 ''Internal Server Error'', st)))"
  using assms by (simp add: update_parking_lot_def Let_def)

lemma update_present:
  "findFirstIncludeSlots (b ''name'') st = Inr (Some lot) \<Longrightarrow>
     update_parking_lot b st =
       (case mapM (updateSlot (b ''filledSlots'') (b ''freeSlots'')) (slots lot) of
          Inl e \<Rightarrow> (Message 500 ''Internal Server Error'', st)
        | Inr updatedSlots \<Rightarrow>
            (Json 200 (''Parking lot and slot statuses updated successfully.'',
                       lot\<lparr>slots := updatedSlots\<rparr>),
             prismaUpdate (lotId lot) (map (\<lambda>slot. (slotId slot, status slot)) updatedSlots) st))"
  by (simp add: update_parking_lot_def Let_def)

lemma update_lookup_fails:
  "findFirstIncludeSlots (b ''name'') st = Inl e \<Longrightarrow>
     update_parking_lot b st = (Message 500 ''Internal Server Error'', st)"
  by (simp add: update_parking_lot_def)

lemma created_only_when_absent:
  assumes "update_parking_lot b st = (Json 201 p, st')"
  shows "findFirstIncludeSlots (b ''name'') st = Inr None"
proof (cases "findFirstIncludeSlots (b ''name'') st")
  case (Inl e)
  with assms show ?thesis by (simp add: update_lookup_fails)
next
  case (Inr found)
  show ?thesis
  proof (cases found)
    case None
    with Inr show ?thesis by simp
  next
    case (Some lot)
    with Inr assms show ?thesis
      by (simp add: update_present split: sum.splits)
  qed
qed

lemma update_created:
  assumes "update_parking_lot b st = (Json 201 (msg, lot), st')"
  obtains n l la lo t k fl fr where
    "b ''name'' = JStr n" "n \<noteq> []" "b ''location'' = JStr l" "l \<noteq> []"
    "b ''latitude'' = JNum la" "la \<noteq> 0" "b ''longitude'' = JNum lo" "lo \<noteq> 0"
    "b ''totalSlots'' = JNum t" "t \<noteq> 0" "\<lfloor>t\<rfloor> < 2 ^ 32"
    "totalSlotsColumn st t = Some k"
    "b ''filledSlots'' = JArr fl" "b ''freeSlots'' = JArr fr"
    "find (\<lambda>lot. name lot = n) (lots st) = None"
    "lot = \<lparr>lotId = nextLotId st, name = n, location = l, latitude = la, longitude = lo,
            totalSlots = k,
            slots = withIds (nextSlotId st)
                      (map (\<lambda>i. \<lparr>slotNumber = i, status = (JNum (of_int i) \<in> set fl)\<rparr>)
                         [1 .. \<lfloor>t\<rfloor>])\<rparr>"
    "st' = st\<lparr>lots := lots st @ [lot], nextLotId := Suc (nextLotId st),
              nextSlotId := nextSlotId st + nat \<lfloor>t\<rfloor>\<rparr>"
proof -
  have absent: "findFirstIncludeSlots (b ''name'') st = Inr None"
    using assms by (rule created_only_when_absent)
  note eq = assms [unfolded update_absent [of b st, OF absent]]
  from eq have guard: "truthy (b ''name'')" "truthy (b ''location'')" "truthy (b ''latitude'')"
      "truthy (b ''longitude'')" "truthy (b ''totalSlots'')"
      "isArray (b ''filledSlots'')" "isArray (b ''freeSlots'')"
    by (auto split: if_splits)
  then obtain fl fr where arr: "b ''filledSlots'' = JArr fl" "b ''freeSlots'' = JArr fr"
    by (auto simp: isArray_iff)
  from eq guard obtain r where r: "b ''totalSlots'' = JNum r"
    by (cases "b ''totalSlots''") simp_all
  let ?cs = "map (\<lambda>i. \<lparr>slotNumber = i, status = (JNum (of_int i) \<in> set fl)\<rparr>) [1 .. \<lfloor>r\<rfloor>]"
  from eq guard r arr have small: "\<lfloor>r\<rfloor> < 2 ^ 32"
    by (simp add: arrayFrom_newSlot split: if_splits)
  with eq guard r arr have created:
    "prismaCreate (b ''name'') (b ''location'') (b ''latitude'') (b ''longitude'') (JNum r) ?cs st
     = Inr (lot, st')"
    by (simp add: arrayFrom_newSlot split: sum.splits prod.splits)
  have len: "length ?cs = nat \<lfloor>r\<rfloor>" by simp
  from prismaCreate_Inr [OF created] obtain n l la lo t k where
    f: "b ''name'' = JStr n" "b ''location'' = JStr l" "b ''latitude'' = JNum la"
       "b ''longitude'' = JNum lo"
    and rt: "JNum r = JNum t"
    and k: "totalSlotsColumn st t = Some k"
    and lot: "lot = \<lparr>lotId = nextLotId st, name = n, location = l, latitude = la,
                  longitude = lo, totalSlots = k, slots = withIds (nextSlotId st) ?cs\<rparr>"
    and st': "st' = st\<lparr>lots := lots st @ [lot], nextLotId := Suc (nextLotId st),
                  nextSlotId := nextSlotId st + length ?cs\<rparr>"
    by (elim exE conjE) (rule that)
  from rt k have k': "totalSlotsColumn st r = Some k" by simp
  from absent f have nofind: "find (\<lambda>lot. name lot = n) (lots st) = None" by simp
  from guard f r have nz: "n \<noteq> []" "l \<noteq> []" "la \<noteq> 0" "lo \<noteq> 0" "r \<noteq> 0" by auto
  from f(1) nz(1) f(2) nz(2) f(3) nz(3) f(4) nz(4) r nz(5) small k' arr nofind lot
    st' [unfolded len]
  show ?thesis by (rule that)
qed

lemma updateSlot_array:
  "updateSlot (JArr fl) (JArr fr) s =
     Inr (s\<lparr>status := (if JNum (of_int (slotNumber s)) \<in> set fl then True
                         else if JNum (of_int (slotNumber s)) \<in> set fr then False
                         else status s)\<rparr>)"
  by (simp add: updateSlot_def)

lemma updateSlot_keeps:
  "updateSlot fl fr s = Inr s' \<Longrightarrow> slotId s' = slotId s \<and> slotNumber s' = slotNumber s"
  by (auto simp: updateSlot_def split: sum.splits bool.splits)

lemma mapM_updateSlot_keeps:
  "mapM (updateSlot fl fr) ss = Inr ss' \<Longrightarrow>
     map slotId ss' = map slotId ss \<and> map slotNumber ss' = map slotNumber ss"
proof (induction ss arbitrary: ss')
  case Nil
  then show ?case by simp
next
  case (Cons s ss)
  then show ?case
    by (auto split: sum.splits dest: updateSlot_keeps)
qed

lemma updateManySlots_map_of:
  "updateManySlots ups ss =
     map (\<lambda>s. case map_of (rev ups) (slotId s) of None \<Rightarrow> s | Some b \<Rightarrow> s\<lparr>status := b\<rparr>) ss"
  unfolding updateManySlots_def
proof (induction ups arbitrary: ss)
  case Nil
  then show ?case by simp
next
  case (Cons u ups)
  obtain i b where u: "u = (i, b)" by (cases u)
  show ?case
    by (simp add: Cons.IH u map_add_def split: option.splits)
qed

lemma updateManySlots_ids: "map slotId (updateManySlots ups ss) = map slotId ss"
  by (simp add: updateManySlots_map_of split: option.splits)

lemma map_of_rev_ids:
  assumes "distinct (map slotId ss)" and "s \<in> set ss"
  shows "map_of (rev (map (\<lambda>s. (slotId s, g s)) ss)) (slotId s) = Some (g s)"
  using assms
proof (induction ss)
  case Nil
  then show ?case by simp
next
  case (Cons x xs)
  have none: "map_of (rev (map (\<lambda>s. (slotId s, g s)) xs)) (slotId x) = None"
    using Cons.prems(1) by (force simp: map_of_eq_None_iff)
  show ?case
  proof (cases "s = x")
    case True
    then show ?thesis by (simp add: map_add_def none)
  next
    case False
    with Cons have "map_of (rev (map (\<lambda>s. (slotId s, g s)) xs)) (slotId s) = Some (g s)"
      by simp
    then show ?thesis by (simp add: map_add_def)
  qed
qed

subsection \<open>Identifiers, lookups and the batch update\<close>

lemma withIds_ids: "map slotId (withIds k cs) = [k ..< k + length cs]"
proof -
  have "map slotId (withIds k cs) = map fst (zip [k ..< k + length cs] cs)"
    unfolding withIds_def map_map
    by (rule map_cong [OF refl]) (auto simp: slotCreate.defs)
  also have "\<dots> = [k ..< k + length cs]"
    by (simp add: map_fst_zip)
  finally show ?thesis .
qed


lemma find_name_None: "find (\<lambda>lot. name lot = n) ls = None \<longleftrightarrow> n \<notin> name ` set ls"
  by (auto simp: find_None_iff)

lemma findFirstIncludeSlots_mem:
  "findFirstIncludeSlots v st = Inr (Some lot) \<Longrightarrow> lot \<in> set (lots st)"
  by (cases v) (auto simp: find_Some_iff)

lemma wf_prismaDelete:
  assumes "wf_store st"
  shows "wf_store (prismaDelete lid st)"
  using assms by (auto simp: wf_store_def prismaDelete_def distinct_map_filter)

lemma wf_prismaUpdate:
  assumes "wf_store st"
  shows "wf_store (prismaUpdate lid ups st)"
proof -
  define f where "f = (\<lambda>lot::parkingLotWithSlots.
     if lotId lot = lid then lot\<lparr>slots := updateManySlots ups (slots lot)\<rparr> else lot)"
  have ids: "lotId (f lot) = lotId lot" and names: "name (f lot) = name lot"
    and sl: "map slotId (slots (f lot)) = map slotId (slots lot)" for lot
    by (simp_all add: f_def updateManySlots_ids)
  have sl_set: "slotId ` set (slots (f lot)) = slotId ` set (slots lot)" for lot
    using sl [of lot] by (metis set_map)
  have st': "prismaUpdate lid ups st = st\<lparr>lots := map f (lots st)\<rparr>"
    by (simp add: prismaUpdate_def f_def)
  have "map lotId (map f (lots st)) = map lotId (lots st)"
    "map name (map f (lots st)) = map name (lots st)"
    by (simp_all add: ids names)
  moreover have "lotId (f lot) < nextLotId st \<and> distinct (map slotId (slots (f lot))) \<and>
        (\<forall>s \<in> set (slots (f lot)). slotId s < nextSlotId st)"
    if "lot \<in> set (lots st)" for lot
  proof -
    from assms that have "lotId lot < nextLotId st" "distinct (map slotId (slots lot))"
      "\<forall>i \<in> slotId ` set (slots lot). i < nextSlotId st"
      by (auto simp: wf_store_def)
    then have "lotId (f lot) < nextLotId st" "distinct (map slotId (slots (f lot)))"
      "\<forall>i \<in> slotId ` set (slots (f lot)). i < nextSlotId st"
      by (simp_all only: ids sl sl_set)
    then show ?thesis by blast
  qed
  ultimately show ?thesis
    using assms unfolding st' wf_store_def by (simp del: map_map)
qed

lemma updateManySlots_self:
  assumes "distinct (map slotId ss)"
  shows "updateManySlots (map (\<lambda>s. (slotId s, status s)) (map (\<lambda>s. s\<lparr>status := g s\<rparr>) ss)) ss
           = map (\<lambda>s. s\<lparr>status := g s\<rparr>) ss"
proof -
  have ups: "map (\<lambda>s. (slotId s, status s)) (map (\<lambda>s. s\<lparr>status := g s\<rparr>) ss)
               = map (\<lambda>s. (slotId s, g s)) ss"
    by simp
  show ?thesis
    unfolding ups updateManySlots_map_of
    by (rule map_cong [OF refl]) (simp add: map_of_rev_ids [OF assms])
qed

lemma find_map_same:
  assumes "\<And>x. P (f x) = P x"
  shows "find P (map f xs) = map_option f (find P xs)"
  by (induction xs) (simp_all add: assms)

lemma findFirstIncludeSlots_prismaUpdate:
  assumes "findFirstIncludeSlots v st = Inr (Some lot)"
  shows "findFirstIncludeSlots v (prismaUpdate (lotId lot) ups st)
           = Inr (Some (lot\<lparr>slots := updateManySlots ups (slots lot)\<rparr>))"
proof -
  define f where "f = (\<lambda>l::parkingLotWithSlots.
     if lotId l = lotId lot then l\<lparr>slots := updateManySlots ups (slots l)\<rparr> else l)"
  have lots': "lots (prismaUpdate (lotId lot) ups st) = map f (lots st)"
    by (simp add: prismaUpdate_def f_def)
  have f_lot: "f lot = lot\<lparr>slots := updateManySlots ups (slots lot)\<rparr>"
    by (simp add: f_def)
  show ?thesis
  proof (cases v)
    case (JStr n)
    have "find (\<lambda>l. name l = n) (map f (lots st)) = map_option f (find (\<lambda>l. name l = n) (lots st))"
      by (rule find_map_same) (simp add: f_def)
    with assms JStr show ?thesis by (simp add: lots' f_lot)
  next
    case JUndefined
    have "find (\<lambda>l. True) (map f (lots st)) = map_option f (find (\<lambda>l. True) (lots st))"
      by (rule find_map_same) simp
    with assms JUndefined show ?thesis by (simp add: lots' f_lot)
  qed (use assms in simp_all)
qed

lemma prismaUpdate_unchanged:
  assumes "wf_store st" and "lot \<in> set (lots st)"
    and "updateManySlots ups (slots lot) = slots lot"
  shows "prismaUpdate (lotId lot) ups st = st"
proof -
  have "(if lotId l = lotId lot then l\<lparr>slots := updateManySlots ups (slots l)\<rparr> else l) = l"
    if "l \<in> set (lots st)" for l
  proof (cases "lotId l = lotId lot")
    case True
    from assms(1) have "inj_on lotId (set (lots st))"
      by (simp add: wf_store_def distinct_map)
    with True that assms(2) have "l = lot" by (auto dest: inj_onD)
    with assms(3) show ?thesis by simp
  next
    case False
    then show ?thesis by simp
  qed
  then have "map (\<lambda>l. if lotId l = lotId lot then l\<lparr>slots := updateManySlots ups (slots l)\<rparr> else l)
               (lots st) = lots st"
    by (simp add: map_idI)
  then show ?thesis by (simp add: prismaUpdate_def)
qed

lemma update_present_arrays:
  assumes "findFirstIncludeSlots (b ''name'') st = Inr (Some lot)"
    and "b ''filledSlots'' = JArr fl" and "b ''freeSlots'' = JArr fr"
  shows "update_parking_lot b st =
     (Json 200 (''Parking lot and slot statuses updated successfully.'',
        lot\<lparr>slots := map (\<lambda>s. s\<lparr>status :=
                 (if JNum (of_int (slotNumber s)) \<in> set fl then True
                  else if JNum (of_int (slotNumber s)) \<in> set fr then False
                  else status s)\<rparr>) (slots lot)\<rparr>),
      prismaUpdate (lotId lot)
        (map (\<lambda>s. (slotId s, status s))
           (map (\<lambda>s. s\<lparr>status :=
                 (if JNum (of_int (slotNumber s)) \<in> set fl then True
                  else if JNum (of_int (slotNumber s)) \<in> set fr then False
                  else status s)\<rparr>) (slots lot))) st)"
proof -
  have "mapM (updateSlot (JArr fl) (JArr fr)) (slots lot) =
      Inr (map (\<lambda>s. s\<lparr>status :=
                 (if JNum (of_int (slotNumber s)) \<in> set fl then True
                  else if JNum (of_int (slotNumber s)) \<in> set fr then False
                  else status s)\<rparr>) (slots lot))"
    by (rule mapM_total) (rule updateSlot_array)
  then show ?thesis
    by (simp add: update_present [of b st, OF assms(1)] assms(2,3))
qed



lemma findFirst_JStr:
  "findFirst (JStr nm) st = Inr (map_option parkingLot.truncate (find (\<lambda>lot. name lot = nm) (lots st)))"
  by (simp add: findFirst_def)

lemma delete_absent:
  assumes "nm \<notin> name ` set (lots st)"
  shows "delete_parking_lot nm st =
    (Message 404 (''Parking lot '' @ [CHR 0x27] @ nm @ [CHR 0x27] @ '' not found''), st)"
proof -
  from assms have "find (\<lambda>lot. name lot = nm) (lots st) = None"
    by (simp add: find_name_None)
  then show ?thesis
    by (simp add: delete_parking_lot_def findFirst_JStr)
qed

lemma delete_present:
  assumes "find (\<lambda>lot. name lot = nm) (lots st) = Some lot"
  shows "delete_parking_lot nm st =
    (Message 200 (''Parking lot '' @ [CHR 0x27] @ nm @ [CHR 0x27] @ '' deleted successfully''),
     prismaDelete (lotId lot) st)"
  using assms by (simp add: delete_parking_lot_def findFirst_JStr parkingLot.defs)

lemma delete_by_id_is_by_name:
  assumes "wf_store st" and "find (\<lambda>lot. name lot = nm) (lots st) = Some lot"
  shows "lots (prismaDelete (lotId lot) st) = filter (\<lambda>l. name l \<noteq> nm) (lots st)"
proof -
  from assms(2) have lot: "lot \<in> set (lots st)" "name lot = nm"
    by (auto simp: find_Some_iff)
  from assms(1) have inj: "inj_on lotId (set (lots st))" "inj_on name (set (lots st))"
    by (simp_all add: wf_store_def distinct_map)
  have "(lotId l \<noteq> lotId lot) = (name l \<noteq> nm)" if "l \<in> set (lots st)" for l
    using that lot inj by (auto dest: inj_onD)
  then show ?thesis
    by (simp add: prismaDelete_def cong: filter_cong)
qed

lemma js_includes_throws:
  assumes "\<not> isArray v" and "\<forall>s. v \<noteq> JStr s"
  shows "js_includes v n = Inl TypeError"
  using assms by (cases v) simp_all

lemma mapM_Inl_iff:
  "(\<exists>e. mapM f xs = Inl e) \<longleftrightarrow> (\<exists>x\<in>set xs. \<exists>e. f x = Inl e)"
  by (induction xs) (auto split: sum.splits)

lemma update_present_throws:
  assumes "findFirstIncludeSlots (b ''name'') st = Inr (Some lot)"
    and "s \<in> set (slots lot)"
    and "updateSlot (b ''filledSlots'') (b ''freeSlots'') s = Inl e"
  shows "update_parking_lot b st = (Message 500 ''Internal Server Error'', st)"
proof -
  from assms(2,3) have "\<exists>e. mapM (updateSlot (b ''filledSlots'') (b ''freeSlots'')) (slots lot) = Inl e"
    unfolding mapM_Inl_iff by blast
  then show ?thesis
    by (auto simp: update_present [of b st, OF assms(1)])
qed


lemma js_includes_total:
  assumes "isArray v \<or> (\<exists>s. v = JStr s)"
  shows "js_includes v n = Inr True \<or> js_includes v n = Inr False"
  using assms by (cases v) auto

lemma update_all_filled:
  assumes "findFirstIncludeSlots (b ''name'') st = Inr (Some lot)"
    and "\<forall>s \<in> set (slots lot). js_includes (b ''filledSlots'') (slotNumber s) = Inr True"
  shows "update_parking_lot b st =
     (Json 200 (''Parking lot and slot statuses updated successfully.'',
                lot\<lparr>slots := map (\<lambda>s. s\<lparr>status := True\<rparr>) (slots lot)\<rparr>),
      prismaUpdate (lotId lot) (map (\<lambda>s. (slotId s, True)) (slots lot)) st)"
proof -
  have "mapM (updateSlot (b ''filledSlots'') (b ''freeSlots'')) (slots lot) =
      Inr (map (\<lambda>s. s\<lparr>status := True\<rparr>) (slots lot))"
    by (rule mapM_total) (simp add: updateSlot_def assms(2))
  then show ?thesis
    by (simp add: update_present [of b st, OF assms(1)] comp_def)
qed

subsection \<open>Every reachable store is well-formed\<close>

lemma update_absent_keeps_or_creates:
  assumes "findFirstIncludeSlots (b ''name'') st = Inr None"
  shows "snd (update_parking_lot b st) = st \<or>
         (\<exists>msg lot. fst (update_parking_lot b st) = Json 201 (msg, lot))"
proof (cases "\<not> truthy (b ''name'') \<or> \<not> truthy (b ''location'') \<or> \<not> truthy (b ''latitude'')
         \<or> \<not> truthy (b ''longitude'') \<or> \<not> truthy (b ''totalSlots'')
         \<or> \<not> isArray (b ''filledSlots'') \<or> \<not> isArray (b ''freeSlots'')")
  case True
  then show ?thesis
    unfolding update_absent [of b st, OF assms] by simp
next
  case guard: False
  show ?thesis
  proof (cases "b ''totalSlots''")
    case (JNum t)
    show ?thesis
    proof (cases "arrayFrom t (newSlot (b ''filledSlots''))")
      case (Inl e)
      with guard JNum show ?thesis
        unfolding update_absent [of b st, OF assms] by simp
    next
      case (Inr cs)
      show ?thesis
      proof (cases "prismaCreate (b ''name'') (b ''location'') (b ''latitude'')
                          (b ''longitude'') (b ''totalSlots'') cs st")
        case (Inl e)
        with guard JNum Inr show ?thesis
          unfolding update_absent [of b st, OF assms] by simp
      next
        case created: (Inr p)
        obtain lot st' where "p = (lot, st')" by (cases p)
        with guard JNum Inr created show ?thesis
          unfolding update_absent [of b st, OF assms] by simp
      qed
    qed
  qed (use guard in \<open>simp_all add: update_absent [of b st, OF assms]\<close>)
qed

lemma wf_update_parking_lot:
  assumes "wf_store st"
  shows "wf_store (snd (update_parking_lot b st))"
proof (cases "findFirstIncludeSlots (b ''name'') st")
  case (Inl e)
  with assms show ?thesis by (simp add: update_lookup_fails)
next
  case (Inr found)
  show ?thesis
  proof (cases found)
    case (Some lot)
    with Inr assms show ?thesis
      by (simp add: update_present wf_prismaUpdate split: sum.splits)
  next
    case None
    obtain r st' where res: "update_parking_lot b st = (r, st')"
      by (cases "update_parking_lot b st")
    show ?thesis
    proof (cases "\<exists>msg lot. r = Json 201 (msg, lot)")
      case True
      then obtain msg lot where "update_parking_lot b st = (Json 201 (msg, lot), st')"
        using res by blast
      then have "wf_store st'"
      proof (cases rule: update_created)
        case (1 n l la lo q k fl fr)
        define t where "t = \<lfloor>q\<rfloor>"
        let ?cs = "map (\<lambda>i. \<lparr>slotNumber = i, status = (JNum (of_int i) \<in> set fl)\<rparr>) [1 .. t]"
        have slots: "slots lot = withIds (nextSlotId st) ?cs"
          and fields: "lotId lot = nextLotId st" "name lot = n"
          by (simp_all add: 1(16) t_def)
        have new: "lots st' = lots st @ [lot]" "nextLotId st' = Suc (nextLotId st)"
          "nextSlotId st' = nextSlotId st + nat t"
          by (simp_all add: 1(17) t_def)
        have len: "length ?cs = nat t" by simp
        have ids: "map slotId (slots lot) = [nextSlotId st ..< nextSlotId st + nat t]"
          unfolding slots using withIds_ids [of "nextSlotId st" ?cs] by (simp only: len)
        then have "slotId ` set (slots lot) = {nextSlotId st ..< nextSlotId st + nat t}"
          by (metis set_map set_upt)
        then have bound: "\<forall>s \<in> set (slots lot). slotId s < nextSlotId st + nat t"
          by auto
        have dist: "distinct (map slotId (slots lot))"
          by (simp only: ids distinct_upt)
        from 1(15) have fresh_name: "n \<notin> name ` set (lots st)"
          by (simp add: find_name_None)
        from assms have fresh_id: "nextLotId st \<notin> lotId ` set (lots st)"
          by (auto simp: wf_store_def)
        from assms have old: "distinct (map lotId (lots st))" "distinct (map name (lots st))"
          "\<forall>l \<in> set (lots st). lotId l < nextLotId st \<and> distinct (map slotId (slots l)) \<and>
             (\<forall>s \<in> set (slots l). slotId s < nextSlotId st)"
          by (simp_all add: wf_store_def)
        show ?thesis
          unfolding wf_store_def new
          using old fresh_name fresh_id bound dist fields
          by (auto simp: less_Suc_eq trans_less_add1)
      qed
      with res show ?thesis by simp
    next
      case False
      with res update_absent_keeps_or_creates [of b st] Inr None have "st' = st"
        by auto
      with res assms show ?thesis by simp
    qed
  qed
qed

lemma wf_delete_parking_lot:
  assumes "wf_store st"
  shows "wf_store (snd (delete_parking_lot nm st))"
  using assms
  by (auto simp: delete_parking_lot_def findFirst_JStr wf_prismaDelete split: option.splits)

lemma wf_no_rows: "lots st = [] \<Longrightarrow> wf_store st"
  by (simp add: wf_store_def)

lemma reachable_wf: "reachable st \<Longrightarrow> wf_store st"
  by (induction rule: reachable.induct)
     (simp_all add: wf_no_rows wf_update_parking_lot wf_delete_parking_lot)

subsection \<open>The example store\<close>

lemma create_lotA:
  "update_parking_lot createLotA emptyStore =
     (Json 201 (''Parking lot created successfully.'', lotA), storeA)"
  by (simp add: update_parking_lot_def createLotA_def request_def emptyStore_def prismaCreate_def
      arrayFrom_def int32Column_def newSlot_def withIds_def upto.simps slotCreate.defs lotA_def
      storeA_def upt_rec Let_def numeral_2_eq_2 numeral_3_eq_3)

lemma wf_storeA: "wf_store storeA"
  by (simp add: wf_store_def storeA_def lotA_def)

lemma find_lotA: "findFirstIncludeSlots (JStr ''Lot-A'') storeA = Inr (Some lotA)"
  by (simp add: storeA_def lotA_def)

lemma details_lotA:
  "lot_details d (request [(''parkingLotName'', JStr ''Lot-A'')]) storeA =
     Json 200 \<lparr>parkingLotName = ''Lot-A'', latitude' = 12.5, longitude' = 77.5,
       totalSlots' = 3, availableSlots = 1, filledSlots = 2, distance = None\<rparr>"
  by (simp add: lot_details_def request_def storeA_def lotA_def)

lemma create_lotE:
  "update_parking_lot createEmptyLot emptyStore =
     (Json 201 (''Parking lot created successfully.'', lotE), storeE)"
  by (simp add: update_parking_lot_def createEmptyLot_def request_def emptyStore_def
      prismaCreate_def arrayFrom_def int32Column_def withIds_def upto.simps lotE_def storeE_def
      Let_def)

section \<open>The derived counters of the lot details\<close>

text \<open>
  C1. The lot-details lookup is claimed to report as \<open>filledSlots\<close> the number of slots
  whose status is true, so that the facility created with \<open>totalSlots = 3\<close> and
  \<open>filledSlots = [2]\<close> reports one filled and two available slots. The handler counts the
  slots whose status is false as filled and those whose status is true as available: on
  that facility it reports two filled slots and one available slot.
\<close>

theorem lot_details_counts_free_as_filled:
  assumes "findFirstIncludeSlots (b ''parkingLotName'') st = Inr (Some lot)"
  shows "\<exists>r. lot_details d b st = Json 200 r \<and>
           totalSlots' r = int (length (slots lot)) \<and>
           filledSlots r = int (length (filter (\<lambda>s. \<not> status s) (slots lot))) \<and>
           availableSlots r = int (length (filter status (slots lot)))"
proof -
  have "length (filter status (slots lot)) + length (filter (\<lambda>s. \<not> status s) (slots lot))
          = length (slots lot)"
    by (rule sum_length_filter_compl)
  then have "int (length (slots lot)) - int (length (filter (\<lambda>s. \<not> status s) (slots lot)))
          = int (length (filter status (slots lot)))"
    by linarith
  with assms show ?thesis
    by (simp add: lot_details_def Let_def)
qed

theorem lot_details_counts_free_as_filled_witness:
  "update_parking_lot createLotA emptyStore =
     (Json 201 (''Parking lot created successfully.'', lotA), storeA) \<and>
   map status (slots lotA) = [False, True, False] \<and>
   (\<exists>r. lot_details (\<lambda>a b c d. 0) (request [(''parkingLotName'', JStr ''Lot-A'')]) storeA
          = Json 200 r \<and>
        totalSlots' r = 3 \<and> filledSlots r = 2 \<and> availableSlots r = 1)"
proof -
  have found: "findFirstIncludeSlots
      (request [(''parkingLotName'', JStr ''Lot-A'')] ''parkingLotName'') storeA = Inr (Some lotA)"
    using find_lotA by (simp add: request_def)
  have st: "map status (slots lotA) = [False, True, False]"
    by (simp add: lotA_def)
  have counts: "int (length (slots lotA)) = 3"
    "int (length (filter (\<lambda>s. \<not> status s) (slots lotA))) = 2"
    "int (length (filter status (slots lotA))) = 1"
    by (simp_all add: lotA_def)
  from lot_details_counts_free_as_filled [where b = "request [(''parkingLotName'', JStr ''Lot-A'')]"
      and d = "\<lambda>a b c d. 0", OF found]
  have "\<exists>r. lot_details (\<lambda>a b c d. 0) (request [(''parkingLotName'', JStr ''Lot-A'')]) storeA
          = Json 200 r \<and>
        totalSlots' r = 3 \<and> filledSlots r = 2 \<and> availableSlots r = 1"
    by (simp only: counts)
  with create_lotA st show ?thesis by blast
qed

text \<open>
  C2. Whatever the store holds, and so after every creation and every update, the
  counters the lot-details lookup returns satisfy
  \<open>availableSlots + filledSlots = totalSlots\<close>.
\<close>

theorem counters_sum_to_total:
  assumes "lot_details d b st = Json 200 r"
  shows "availableSlots r + filledSlots r = totalSlots' r"
proof (cases "findFirstIncludeSlots (b ''parkingLotName'') st")
  case (Inl e)
  with assms show ?thesis by (simp add: lot_details_def)
next
  case (Inr found)
  show ?thesis
  proof (cases found)
    case None
    with Inr assms show ?thesis by (simp add: lot_details_def)
  next
    case (Some lot)
    with Inr assms show ?thesis
      by (auto simp: lot_details_def Let_def split: if_splits)
  qed
qed

theorem counters_sum_to_total_witness:
  "lot_details (\<lambda>a b c d. 0) (request [(''parkingLotName'', JStr ''Lot-A'')]) storeA =
     Json 200 \<lparr>parkingLotName = ''Lot-A'', latitude' = 12.5, longitude' = 77.5,
       totalSlots' = 3, availableSlots = 1, filledSlots = 2, distance = None\<rparr>
   \<and> (1::int) + 2 = 3"
proof -
  have h: "lot_details (\<lambda>a b c d. 0) (request [(''parkingLotName'', JStr ''Lot-A'')]) storeA =
     Json 200 \<lparr>parkingLotName = ''Lot-A'', latitude' = 12.5, longitude' = 77.5,
       totalSlots' = 3, availableSlots = 1, filledSlots = 2, distance = None\<rparr>"
    by (rule details_lotA)
  from counters_sum_to_total [OF h] have "(1::int) + 2 = 3" by simp
  with h show ?thesis by (rule conjI)
qed

section \<open>Updating an existing facility\<close>

text \<open>
  C7. When an existing facility is updated and a slot's number is in both the
  \<open>filledSlots\<close> and the \<open>freeSlots\<close> list of the request, the update succeeds and that
  slot ends up occupied, in the answer and in the stored facility: \<open>filledSlots\<close> is
  asked first.
\<close>

theorem filled_takes_precedence:
  assumes "wf_store st"
    and "findFirstIncludeSlots (b ''name'') st = Inr (Some lot)"
    and "b ''filledSlots'' = JArr fl" and "b ''freeSlots'' = JArr fr"
    and "s \<in> set (slots lot)"
    and "JNum (of_int (slotNumber s)) \<in> set fl" and "JNum (of_int (slotNumber s)) \<in> set fr"
  shows "\<exists>upd st'.
           update_parking_lot b st =
             (Json 200 (''Parking lot and slot statuses updated successfully.'',
                        lot\<lparr>slots := upd\<rparr>), st') \<and>
           findFirstIncludeSlots (b ''name'') st' = Inr (Some (lot\<lparr>slots := upd\<rparr>)) \<and>
           s\<lparr>status := True\<rparr> \<in> set upd \<and>
           (\<forall>s' \<in> set upd. slotId s' = slotId s \<longrightarrow> status s')"
proof -
  define g where "g = (\<lambda>s::slot.
     if JNum (of_int (slotNumber s)) \<in> set fl then True
     else if JNum (of_int (slotNumber s)) \<in> set fr then False else status s)"
  define upd where "upd = map (\<lambda>s. s\<lparr>status := g s\<rparr>) (slots lot)"
  define st' where "st' = prismaUpdate (lotId lot) (map (\<lambda>s. (slotId s, status s)) upd) st"
  have res: "update_parking_lot b st =
      (Json 200 (''Parking lot and slot statuses updated successfully.'', lot\<lparr>slots := upd\<rparr>), st')"
    unfolding upd_def st'_def g_def by (rule update_present_arrays [OF assms(2,3,4)])
  have mem: "lot \<in> set (lots st)"
    using assms(2) by (rule findFirstIncludeSlots_mem)
  with assms(1) have dist: "distinct (map slotId (slots lot))"
    by (simp add: wf_store_def)
  have stored: "updateManySlots (map (\<lambda>s. (slotId s, status s)) upd) (slots lot) = upd"
    unfolding upd_def by (rule updateManySlots_self [OF dist])
  have look: "findFirstIncludeSlots (b ''name'') st' = Inr (Some (lot\<lparr>slots := upd\<rparr>))"
    unfolding st'_def by (simp add: findFirstIncludeSlots_prismaUpdate [OF assms(2)] stored)
  have "g s" using assms(6) by (simp add: g_def)
  with assms(5) have in_upd: "s\<lparr>status := True\<rparr> \<in> set upd"
    by (force simp: upd_def)
  have only: "status s'" if "s' \<in> set upd" "slotId s' = slotId s" for s'
  proof -
    from that(1) obtain s0 where s0: "s0 \<in> set (slots lot)" "s' = s0\<lparr>status := g s0\<rparr>"
      by (auto simp: upd_def)
    with that(2) have "slotId s0 = slotId s" by simp
    with dist s0(1) assms(5) have "s0 = s"
      by (auto simp: distinct_map dest: inj_onD)
    with s0(2) \<open>g s\<close> show ?thesis by simp
  qed
  from res look in_upd only show ?thesis by blast
qed

theorem filled_takes_precedence_witness:
  "wf_store storeA \<and>
   findFirstIncludeSlots (fillAndFree1 ''name'') storeA = Inr (Some lotA) \<and>
   (\<exists>upd st'.
      update_parking_lot fillAndFree1 storeA =
        (Json 200 (''Parking lot and slot statuses updated successfully.'',
                   lotA\<lparr>slots := upd\<rparr>), st') \<and>
      findFirstIncludeSlots (fillAndFree1 ''name'') st' = Inr (Some (lotA\<lparr>slots := upd\<rparr>)) \<and>
      \<lparr>slotNumber = 1, status = True, slotId = 0\<rparr> \<in> set upd \<and>
      (\<forall>s' \<in> set upd. slotId s' = 0 \<longrightarrow> status s'))"
proof -
  have h2: "findFirstIncludeSlots (fillAndFree1 ''name'') storeA = Inr (Some lotA)"
    using find_lotA by (simp add: fillAndFree1_def request_def)
  have h3: "fillAndFree1 ''filledSlots'' = JArr [JNum 1]"
    and h4: "fillAndFree1 ''freeSlots'' = JArr [JNum 1]"
    by (simp_all add: fillAndFree1_def request_def)
  have h5: "\<lparr>slotNumber = 1, status = False, slotId = 0\<rparr> \<in> set (slots lotA)"
    by (simp add: lotA_def)
  have h6: "JNum (of_int (slotNumber \<lparr>slotNumber = 1, status = False, slotId = 0\<rparr>)) \<in> set [JNum 1]"
    by simp
  from filled_takes_precedence [OF wf_storeA h2 h3 h4 h5 h6 h6] wf_storeA h2
  show ?thesis by simp
qed

text \<open>
  C8. When an existing facility is updated with two lists, the update succeeds, no slot is
  added, removed or renumbered, and every slot whose number is in neither list keeps its
  status. Numbers of the lists that no slot of the facility carries have no effect: if no
  slot's number is in either list (the lists are empty, or name only numbers outside
  the facility), the answer carries the slots as they were and the store is unchanged.
\<close>

theorem update_leaves_other_slots:
  assumes "wf_store st"
    and "findFirstIncludeSlots (b ''name'') st = Inr (Some lot)"
    and "b ''filledSlots'' = JArr fl" and "b ''freeSlots'' = JArr fr"
  shows "\<exists>upd st'.
           update_parking_lot b st =
             (Json 200 (''Parking lot and slot statuses updated successfully.'',
                        lot\<lparr>slots := upd\<rparr>), st') \<and>
           findFirstIncludeSlots (b ''name'') st' = Inr (Some (lot\<lparr>slots := upd\<rparr>)) \<and>
           length upd = length (slots lot) \<and>
           map slotId upd = map slotId (slots lot) \<and>
           map slotNumber upd = map slotNumber (slots lot) \<and>
           (\<forall>i < length (slots lot).
              JNum (of_int (slotNumber (slots lot ! i))) \<notin> set fl \<union> set fr \<longrightarrow>
              upd ! i = slots lot ! i) \<and>
           ((\<forall>s \<in> set (slots lot). JNum (of_int (slotNumber s)) \<notin> set fl \<union> set fr) \<longrightarrow>
              upd = slots lot \<and> st' = st)"
proof -
  define g where "g = (\<lambda>s::slot.
     if JNum (of_int (slotNumber s)) \<in> set fl then True
     else if JNum (of_int (slotNumber s)) \<in> set fr then False else status s)"
  define upd where "upd = map (\<lambda>s. s\<lparr>status := g s\<rparr>) (slots lot)"
  define st' where "st' = prismaUpdate (lotId lot) (map (\<lambda>s. (slotId s, status s)) upd) st"
  have res: "update_parking_lot b st =
      (Json 200 (''Parking lot and slot statuses updated successfully.'', lot\<lparr>slots := upd\<rparr>), st')"
    unfolding upd_def st'_def g_def by (rule update_present_arrays [OF assms(2,3,4)])
  have mem: "lot \<in> set (lots st)"
    using assms(2) by (rule findFirstIncludeSlots_mem)
  with assms(1) have dist: "distinct (map slotId (slots lot))"
    by (simp add: wf_store_def)
  have stored: "updateManySlots (map (\<lambda>s. (slotId s, status s)) upd) (slots lot) = upd"
    unfolding upd_def by (rule updateManySlots_self [OF dist])
  have look: "findFirstIncludeSlots (b ''name'') st' = Inr (Some (lot\<lparr>slots := upd\<rparr>))"
    unfolding st'_def by (simp add: findFirstIncludeSlots_prismaUpdate [OF assms(2)] stored)
  have len: "length upd = length (slots lot)"
    and ids: "map slotId upd = map slotId (slots lot)"
    and nums: "map slotNumber upd = map slotNumber (slots lot)"
    by (simp_all add: upd_def)
  have frame: "upd ! i = slots lot ! i"
    if "i < length (slots lot)" "JNum (of_int (slotNumber (slots lot ! i))) \<notin> set fl \<union> set fr" for i
    using that by (simp add: upd_def g_def)
  have noop: "upd = slots lot \<and> st' = st"
    if none: "\<forall>s \<in> set (slots lot). JNum (of_int (slotNumber s)) \<notin> set fl \<union> set fr"
  proof -
    have "s\<lparr>status := g s\<rparr> = s" if "s \<in> set (slots lot)" for s
      using none that by (simp add: g_def)
    then have same: "upd = slots lot"
      by (simp add: upd_def map_idI)
    with stored have "updateManySlots (map (\<lambda>s. (slotId s, status s)) upd) (slots lot) = slots lot"
      by simp
    then have "st' = st"
      unfolding st'_def by (rule prismaUpdate_unchanged [OF assms(1) mem])
    with same show ?thesis ..
  qed
  from res look len ids nums frame noop show ?thesis by blast
qed

theorem update_leaves_other_slots_witness:
  "wf_store storeA \<and>
   findFirstIncludeSlots (fill99 ''name'') storeA = Inr (Some lotA) \<and>
   fill99 ''filledSlots'' = JArr [JNum 99] \<and> fill99 ''freeSlots'' = JArr [] \<and>
   update_parking_lot fill99 storeA =
     (Json 200 (''Parking lot and slot statuses updated successfully.'', lotA), storeA)"
proof -
  have h2: "findFirstIncludeSlots (fill99 ''name'') storeA = Inr (Some lotA)"
    using find_lotA by (simp add: fill99_def request_def)
  have h3: "fill99 ''filledSlots'' = JArr [JNum 99]"
    and h4: "fill99 ''freeSlots'' = JArr []"
    by (simp_all add: fill99_def request_def)
  have none: "\<forall>s \<in> set (slots lotA). JNum (of_int (slotNumber s)) \<notin> set [JNum 99] \<union> set []"
    by (simp add: lotA_def)
  from update_leaves_other_slots [OF wf_storeA h2 h3 h4] none
  have "update_parking_lot fill99 storeA =
     (Json 200 (''Parking lot and slot statuses updated successfully.'', lotA), storeA)"
    by auto
  with wf_storeA h2 h3 h4 show ?thesis by simp
qed

section \<open>Creating a facility\<close>




text \<open>
  C4, as the code has it. A reconcile request for a new facility with \<open>totalSlots = 0\<close>
  is rejected as an invalid request (status 400) and the store is left as it was. A
  stored facility without slots has all three derived counters zero.
\<close>

theorem zero_total_slots_rejected:
  "(findFirstIncludeSlots (b ''name'') st = Inr None \<and> b ''totalSlots'' = JNum 0 \<longrightarrow>
      update_parking_lot b st = (Message 400 invalidRequest, st))
   \<and> (findFirstIncludeSlots (b' ''parkingLotName'') st' = Inr (Some lot) \<and> slots lot = [] \<longrightarrow>
        (\<exists>r. lot_details d b' st' = Json 200 r \<and>
             totalSlots' r = 0 \<and> availableSlots r = 0 \<and> filledSlots r = 0))"
  by (simp add: update_absent lot_details_def Let_def)

theorem zero_total_slots_rejected_witness:
  "findFirstIncludeSlots (createLotZ ''name'') storeA = Inr None \<and>
   createLotZ ''totalSlots'' = JNum 0 \<and>
   update_parking_lot createLotZ storeA = (Message 400 invalidRequest, storeA) \<and>
   findFirstIncludeSlots (JStr ''Lot-E'') (snd (update_parking_lot createEmptyLot emptyStore))
     = Inr (Some lotE) \<and>
   slots lotE = [] \<and>
   (\<exists>r. lot_details (\<lambda>a b c d. 0) (request [(''parkingLotName'', JStr ''Lot-E'')])
          (snd (update_parking_lot createEmptyLot emptyStore)) = Json 200 r \<and>
        totalSlots' r = 0 \<and> availableSlots r = 0 \<and> filledSlots r = 0)"
proof -
  note T = zero_total_slots_rejected [where b = createLotZ and st = storeA
      and b' = "request [(''parkingLotName'', JStr ''Lot-E'')]"
      and st' = "snd (update_parking_lot createEmptyLot emptyStore)" and lot = lotE
      and d = "\<lambda>a b c d. 0"]
  have a: "findFirstIncludeSlots (createLotZ ''name'') storeA = Inr None"
    and z: "createLotZ ''totalSlots'' = JNum 0"
    by (simp_all add: createLotZ_def request_def storeA_def lotA_def)
  have e: "findFirstIncludeSlots (JStr ''Lot-E'') (snd (update_parking_lot createEmptyLot emptyStore))
      = Inr (Some lotE)"
    by (simp add: create_lotE storeE_def lotE_def)
  have e': "findFirstIncludeSlots (request [(''parkingLotName'', JStr ''Lot-E'')] ''parkingLotName'')
      (snd (update_parking_lot createEmptyLot emptyStore)) = Inr (Some lotE)"
    using e by (simp add: request_def)
  have s: "slots lotE = []" by (simp add: lotE_def)
  from T [THEN conjunct1, rule_format, OF conjI [OF a z]]
    T [THEN conjunct2, rule_format, OF conjI [OF e' s]] a z e s
  show ?thesis by blast
qed

text \<open>
  C4 as claimed (a creation with \<open>totalSlots = 0\<close> is legal) fails: the request below, for a
  name the empty store does not hold, is answered with status 400.
\<close>

theorem zero_total_slots_counterexample:
  "findFirstIncludeSlots (createLotZ ''name'') emptyStore = Inr None \<and>
   createLotZ ''totalSlots'' = JNum 0 \<and>
   update_parking_lot createLotZ emptyStore = (Message 400 invalidRequest, emptyStore)"
  by (simp add: update_parking_lot_def createLotZ_def request_def emptyStore_def)

text \<open>
  C10, as the code has it. When the reconcile operation targets a facility that exists,
  the request is never rejected as invalid (no status 400). If the facility has a slot
  and \<open>filledSlots\<close> is missing or is neither a list nor a string, the membership test
  throws and the request fails with the generic internal failure, the store unchanged.
  The same happens when \<open>freeSlots\<close> is missing or is neither a list nor a string and
  some slot's number is not found in \<open>filledSlots\<close>, so that \<open>freeSlots\<close> is asked. When
  every slot's number is found in \<open>filledSlots\<close>, and so when the facility has no slot,
  \<open>freeSlots\<close> is never asked: whatever it is, the request succeeds and every slot is
  occupied. So, for a \<open>filledSlots\<close> that is a list or a string and a \<open>freeSlots\<close> that is
  missing or neither, the request fails exactly when some slot's number is not found in
  \<open>filledSlots\<close>.
\<close>

theorem update_path_has_no_validation:
  assumes "findFirstIncludeSlots (b ''name'') st = Inr (Some lot)"
  shows "(\<forall>m. fst (update_parking_lot b st) \<noteq> Message 400 m) \<and>
     (slots lot \<noteq> [] \<and> \<not> isArray (b ''filledSlots'') \<and> (\<forall>s. b ''filledSlots'' \<noteq> JStr s) \<longrightarrow>
        update_parking_lot b st = (Message 500 ''Internal Server Error'', st)) \<and>
     (\<not> isArray (b ''freeSlots'') \<and> (\<forall>s. b ''freeSlots'' \<noteq> JStr s) \<and>
      (\<exists>s \<in> set (slots lot). js_includes (b ''filledSlots'') (slotNumber s) = Inr False) \<longrightarrow>
        update_parking_lot b st = (Message 500 ''Internal Server Error'', st)) \<and>
     ((\<forall>s \<in> set (slots lot). js_includes (b ''filledSlots'') (slotNumber s) = Inr True) \<longrightarrow>
        update_parking_lot b st =
          (Json 200 (''Parking lot and slot statuses updated successfully.'',
                     lot\<lparr>slots := map (\<lambda>s. s\<lparr>status := True\<rparr>) (slots lot)\<rparr>),
           prismaUpdate (lotId lot) (map (\<lambda>s. (slotId s, True)) (slots lot)) st)) \<and>
     ((isArray (b ''filledSlots'') \<or> (\<exists>s. b ''filledSlots'' = JStr s)) \<and>
      \<not> isArray (b ''freeSlots'') \<and> (\<forall>s. b ''freeSlots'' \<noteq> JStr s) \<longrightarrow>
        (update_parking_lot b st = (Message 500 ''Internal Server Error'', st)) =
        (\<exists>s \<in> set (slots lot). js_includes (b ''filledSlots'') (slotNumber s) = Inr False))"
proof -
  have no400: "fst (update_parking_lot b st) \<noteq> Message 400 m" for m
    by (simp add: update_present [of b st, OF assms] split: sum.splits)
  have bad_filled: "update_parking_lot b st = (Message 500 ''Internal Server Error'', st)"
    if h: "slots lot \<noteq> [] \<and> \<not> isArray (b ''filledSlots'') \<and> (\<forall>s. b ''filledSlots'' \<noteq> JStr s)"
  proof -
    from h obtain s where s: "s \<in> set (slots lot)"
      by (cases "slots lot") auto
    from h have "js_includes (b ''filledSlots'') (slotNumber s) = Inl TypeError"
      by (intro js_includes_throws) blast+
    then have "updateSlot (b ''filledSlots'') (b ''freeSlots'') s = Inl TypeError"
      by (simp add: updateSlot_def)
    with assms s show ?thesis
      by (rule update_present_throws)
  qed
  have bad_free: "update_parking_lot b st = (Message 500 ''Internal Server Error'', st)"
    if h: "\<not> isArray (b ''freeSlots'') \<and> (\<forall>s. b ''freeSlots'' \<noteq> JStr s) \<and>
      (\<exists>s \<in> set (slots lot). js_includes (b ''filledSlots'') (slotNumber s) = Inr False)"
  proof -
    from h obtain s where s: "s \<in> set (slots lot)"
      and no: "js_includes (b ''filledSlots'') (slotNumber s) = Inr False"
      by blast
    from h have "js_includes (b ''freeSlots'') (slotNumber s) = Inl TypeError"
      by (intro js_includes_throws) blast+
    with no have "updateSlot (b ''filledSlots'') (b ''freeSlots'') s = Inl TypeError"
      by (simp add: updateSlot_def)
    with assms s show ?thesis
      by (rule update_present_throws)
  qed
  have all_filled: "update_parking_lot b st =
          (Json 200 (''Parking lot and slot statuses updated successfully.'',
                     lot\<lparr>slots := map (\<lambda>s. s\<lparr>status := True\<rparr>) (slots lot)\<rparr>),
           prismaUpdate (lotId lot) (map (\<lambda>s. (slotId s, True)) (slots lot)) st)"
    if "\<forall>s \<in> set (slots lot). js_includes (b ''filledSlots'') (slotNumber s) = Inr True"
    using assms that by (rule update_all_filled)
  have exactly: "(update_parking_lot b st = (Message 500 ''Internal Server Error'', st)) =
        (\<exists>s \<in> set (slots lot). js_includes (b ''filledSlots'') (slotNumber s) = Inr False)"
    if h: "(isArray (b ''filledSlots'') \<or> (\<exists>s. b ''filledSlots'' = JStr s)) \<and>
      \<not> isArray (b ''freeSlots'') \<and> (\<forall>s. b ''freeSlots'' \<noteq> JStr s)"
  proof (cases "\<exists>s \<in> set (slots lot). js_includes (b ''filledSlots'') (slotNumber s) = Inr False")
    case True
    with h bad_free show ?thesis by blast
  next
    case False
    from h have "js_includes (b ''filledSlots'') n = Inr True \<or>
        js_includes (b ''filledSlots'') n = Inr False" for n
      by (intro js_includes_total) blast
    with False have "\<forall>s \<in> set (slots lot). js_includes (b ''filledSlots'') (slotNumber s) = Inr True"
      by blast
    from all_filled [OF this] False show ?thesis by simp
  qed
  from no400 bad_filled bad_free all_filled exactly show ?thesis by blast
qed

theorem update_path_has_no_validation_witness:
  "findFirstIncludeSlots (fillNumber ''name'') storeA = Inr (Some lotA) \<and>
   slots lotA \<noteq> [] \<and> fillNumber ''filledSlots'' = JNum 5 \<and>
   update_parking_lot fillNumber storeA = (Message 500 ''Internal Server Error'', storeA) \<and>
   findFirstIncludeSlots (fillOne ''name'') storeA = Inr (Some lotA) \<and>
   fillOne ''filledSlots'' = JArr [JNum 1] \<and> fillOne ''freeSlots'' = JUndefined \<and>
   update_parking_lot fillOne storeA = (Message 500 ''Internal Server Error'', storeA) \<and>
   findFirstIncludeSlots (fillAllNullFree ''name'') storeA = Inr (Some lotA) \<and>
   fillAllNullFree ''filledSlots'' = JArr [JNum 3, JNum 2, JNum 1] \<and>
   fillAllNullFree ''freeSlots'' = JNull \<and>
   update_parking_lot fillAllNullFree storeA =
     (Json 200 (''Parking lot and slot statuses updated successfully.'',
                lotA\<lparr>slots := map (\<lambda>s. s\<lparr>status := True\<rparr>) (slots lotA)\<rparr>),
      prismaUpdate (lotId lotA) (map (\<lambda>s. (slotId s, True)) (slots lotA)) storeA) \<and>
   update_parking_lot fillAllNullFree storeA \<noteq> (Message 500 ''Internal Server Error'', storeA)"
proof -
  have f1: "findFirstIncludeSlots (fillNumber ''name'') storeA = Inr (Some lotA)"
    using find_lotA by (simp add: fillNumber_def request_def)
  have f2: "findFirstIncludeSlots (fillOne ''name'') storeA = Inr (Some lotA)"
    using find_lotA by (simp add: fillOne_def request_def)
  have f3: "findFirstIncludeSlots (fillAllNullFree ''name'') storeA = Inr (Some lotA)"
    using find_lotA by (simp add: fillAllNullFree_def request_def)
  have v1: "fillNumber ''filledSlots'' = JNum 5"
    and v2: "fillOne ''filledSlots'' = JArr [JNum 1]" and v3: "fillOne ''freeSlots'' = JUndefined"
    and v4: "fillAllNullFree ''filledSlots'' = JArr [JNum 3, JNum 2, JNum 1]"
    and v5: "fillAllNullFree ''freeSlots'' = JNull"
    by (simp_all add: fillNumber_def fillOne_def fillAllNullFree_def request_def)
  have ne: "slots lotA \<noteq> []" by (simp add: lotA_def)
  have h1: "slots lotA \<noteq> [] \<and> \<not> isArray (fillNumber ''filledSlots'') \<and>
      (\<forall>s. fillNumber ''filledSlots'' \<noteq> JStr s)"
    by (simp add: v1 ne)
  have h2: "\<not> isArray (fillOne ''freeSlots'') \<and> (\<forall>s. fillOne ''freeSlots'' \<noteq> JStr s) \<and>
      (\<exists>s \<in> set (slots lotA). js_includes (fillOne ''filledSlots'') (slotNumber s) = Inr False)"
    by (simp add: v2 v3 lotA_def)
  have h3: "\<forall>s \<in> set (slots lotA).
      js_includes (fillAllNullFree ''filledSlots'') (slotNumber s) = Inr True"
    by (simp add: v4 lotA_def)
  have h4: "(isArray (fillAllNullFree ''filledSlots'') \<or> (\<exists>s. fillAllNullFree ''filledSlots'' = JStr s)) \<and>
      \<not> isArray (fillAllNullFree ''freeSlots'') \<and> (\<forall>s. fillAllNullFree ''freeSlots'' \<noteq> JStr s)"
    by (simp add: v4 v5)
  note T1 = update_path_has_no_validation [where b = fillNumber, OF f1]
  note T2 = update_path_has_no_validation [where b = fillOne, OF f2]
  note T3 = update_path_has_no_validation [where b = fillAllNullFree, OF f3]
  have r1: "update_parking_lot fillNumber storeA = (Message 500 ''Internal Server Error'', storeA)"
    using T1 h1 by blast
  have r2: "update_parking_lot fillOne storeA = (Message 500 ''Internal Server Error'', storeA)"
    using T2 h2 by blast
  have r3: "update_parking_lot fillAllNullFree storeA =
     (Json 200 (''Parking lot and slot statuses updated successfully.'',
                lotA\<lparr>slots := map (\<lambda>s. s\<lparr>status := True\<rparr>) (slots lotA)\<rparr>),
      prismaUpdate (lotId lotA) (map (\<lambda>s. (slotId s, True)) (slots lotA)) storeA)"
    using T3 h3 by blast
  from h3 have "\<not> (\<exists>s \<in> set (slots lotA).
      js_includes (fillAllNullFree ''filledSlots'') (slotNumber s) = Inr False)"
    by simp
  with T3 h4 have r4: "update_parking_lot fillAllNullFree storeA \<noteq>
      (Message 500 ''Internal Server Error'', storeA)"
    by blast
  from f1 ne v1 r1 f2 v2 v3 r2 f3 v4 v5 r3 r4 show ?thesis by blast
qed

text \<open>
  C10 as claimed (a missing list field on the update path always ends in the internal
  failure) fails: with every slot's number in \<open>filledSlots\<close>, \<open>freeSlots\<close> is never asked,
  and the request without \<open>freeSlots\<close> succeeds.
\<close>

theorem missing_free_slots_counterexample:
  "findFirstIncludeSlots (fillAll ''name'') storeA = Inr (Some lotA) \<and>
   fillAll ''freeSlots'' = JUndefined \<and>
   fst (update_parking_lot fillAll storeA) =
     Json 200 (''Parking lot and slot statuses updated successfully.'',
       lotA\<lparr>slots := [\<lparr>slotNumber = 1, status = True, slotId = 0\<rparr>,
                        \<lparr>slotNumber = 2, status = True, slotId = 1\<rparr>,
                        \<lparr>slotNumber = 3, status = True, slotId = 2\<rparr>]\<rparr>)"
  by (simp add: update_parking_lot_def fillAll_def request_def storeA_def lotA_def updateSlot_def)

section \<open>Deleting a facility\<close>

text \<open>
  C9. On a well-formed store, deleting by a name that a facility carries answers with
  success and removes that facility, slots included, and nothing else; deleting a name
  no facility carries answers 404 and changes nothing. Either way, afterwards no
  facility has the name: deleting it again and looking up its details both answer 404.
\<close>

theorem delete_then_not_found:
  assumes "wf_store st"
  shows "\<exists>r st'. delete_parking_lot nm st = (r, st') \<and>
     (if nm \<in> name ` set (lots st)
      then r = Message 200 (''Parking lot '' @ [CHR 0x27] @ nm @ [CHR 0x27] @ '' deleted successfully'')
           \<and> lots st' = filter (\<lambda>lot. name lot \<noteq> nm) (lots st)
      else r = Message 404 (''Parking lot '' @ [CHR 0x27] @ nm @ [CHR 0x27] @ '' not found'')
           \<and> st' = st) \<and>
     nm \<notin> name ` set (lots st') \<and>
     delete_parking_lot nm st' =
       (Message 404 (''Parking lot '' @ [CHR 0x27] @ nm @ [CHR 0x27] @ '' not found''), st') \<and>
     (\<forall>d b. b ''parkingLotName'' = JStr nm \<longrightarrow>
        lot_details d b st' = Message 404 ''Parking lot not found'')"
proof -
  obtain r st' where res: "delete_parking_lot nm st = (r, st')"
    by (cases "delete_parking_lot nm st")
  have first: "if nm \<in> name ` set (lots st)
      then r = Message 200 (''Parking lot '' @ [CHR 0x27] @ nm @ [CHR 0x27] @ '' deleted successfully'')
           \<and> lots st' = filter (\<lambda>lot. name lot \<noteq> nm) (lots st)
      else r = Message 404 (''Parking lot '' @ [CHR 0x27] @ nm @ [CHR 0x27] @ '' not found'')
           \<and> st' = st"
  proof (cases "nm \<in> name ` set (lots st)")
    case True
    then obtain lot where found: "find (\<lambda>lot. name lot = nm) (lots st) = Some lot"
      by (cases "find (\<lambda>lot. name lot = nm) (lots st)") (auto simp: find_name_None)
    from res have "r = Message 200 (''Parking lot '' @ [CHR 0x27] @ nm @ [CHR 0x27] @ '' deleted successfully'')"
      and "st' = prismaDelete (lotId lot) st"
      by (simp_all add: delete_present [OF found])
    with True delete_by_id_is_by_name [OF assms found] show ?thesis by simp
  next
    case False
    with res show ?thesis by (simp add: delete_absent)
  qed
  then have gone: "nm \<notin> name ` set (lots st')"
    by (auto split: if_splits)
  then have again: "delete_parking_lot nm st' =
       (Message 404 (''Parking lot '' @ [CHR 0x27] @ nm @ [CHR 0x27] @ '' not found''), st')"
    by (rule delete_absent)
  have details: "lot_details d b st' = Message 404 ''Parking lot not found''"
    if "b ''parkingLotName'' = JStr nm" for d b
  proof -
    from gone have "find (\<lambda>lot. name lot = nm) (lots st') = None"
      by (simp add: find_name_None)
    with that show ?thesis by (simp add: lot_details_def)
  qed
  from res first gone again details show ?thesis by blast
qed

theorem delete_then_not_found_witness:
  "wf_store storeA \<and>
   delete_parking_lot ''Lot-A'' storeA =
     (Message 200 ''Parking lot 'Lot-A' deleted successfully'', storeA\<lparr>lots := []\<rparr>) \<and>
   delete_parking_lot ''Lot-A'' (storeA\<lparr>lots := []\<rparr>) =
     (Message 404 ''Parking lot 'Lot-A' not found'', storeA\<lparr>lots := []\<rparr>) \<and>
   lot_details (\<lambda>a b c d. 0) (request [(''parkingLotName'', JStr ''Lot-A'')])
       (storeA\<lparr>lots := []\<rparr>) = Message 404 ''Parking lot not found''"
proof -
  have del: "delete_parking_lot ''Lot-A'' storeA =
     (Message 200 ''Parking lot 'Lot-A' deleted successfully'', storeA\<lparr>lots := []\<rparr>)"
    by (simp add: delete_parking_lot_def findFirst_def prismaDelete_def storeA_def lotA_def
        parkingLot.defs)
  have req: "request [(''parkingLotName'', JStr ''Lot-A'')] ''parkingLotName'' = JStr ''Lot-A''"
    by (simp add: request_def)
  from delete_then_not_found [OF wf_storeA, of "''Lot-A''"] del req wf_storeA
  show ?thesis by auto
qed

section \<open>Nearby parking lots\<close>

text \<open>
  C5. For every pair of user coordinates and every collection of facilities, the filter of
  the nearby-parking-lots handler keeps exactly the facilities whose distance from the
  user, as \<open>calculateDistanceInKM\<close> computes it, is at most 10: a facility at exactly 10 is
  kept, one above 10 is dropped. The handler answers with that selection from the stored
  facilities whenever the coordinates pass its check.
\<close>

theorem nearby_within_ten_km:
  "(lot \<in> set (nearbyParkingLots d userLat userLon parkingLots) \<longleftrightarrow>
      lot \<in> set parkingLots \<and> d userLat userLon (latitude lot) (longitude lot) \<le> 10)
   \<and> (lot \<in> set parkingLots \<and> d userLat userLon (latitude lot) (longitude lot) = 10 \<longrightarrow>
        lot \<in> set (nearbyParkingLots d userLat userLon parkingLots))
   \<and> (d userLat userLon (latitude lot) (longitude lot) > 10 \<longrightarrow>
        lot \<notin> set (nearbyParkingLots d userLat userLon parkingLots))
   \<and> (truthy (b ''userLat'') \<and> truthy (b ''userLon'') \<longrightarrow>
        nearby_parking_lots d b st =
          Json 200 (nearbyParkingLots d (b ''userLat'') (b ''userLon'') (findMany st)))"
  by (simp add: nearbyParkingLots_def nearby_parking_lots_def)

theorem nearby_within_ten_km_witness:
  "truthy (nearBody ''userLat'') \<and> truthy (nearBody ''userLon'') \<and>
   nearby_parking_lots (\<lambda>a b c d. 10) nearBody storeA = Json 200 [parkingLot.truncate lotA] \<and>
   nearby_parking_lots (\<lambda>a b c d. 10.01) nearBody storeA = Json 200 []"
proof -
  have t: "truthy (nearBody ''userLat'') \<and> truthy (nearBody ''userLon'')"
    by (simp add: nearBody_def request_def)
  have rows: "findMany storeA = [parkingLot.truncate lotA]"
    by (simp add: findMany_def storeA_def)
  have at: "parkingLot.truncate lotA \<in> set (findMany storeA) \<and>
      (\<lambda>a b c d. 10::real) (nearBody ''userLat'') (nearBody ''userLon'')
        (latitude (parkingLot.truncate lotA)) (longitude (parkingLot.truncate lotA)) = 10"
    by (simp add: rows)
  have above: "(\<lambda>a b c d. 10.01::real) (nearBody ''userLat'') (nearBody ''userLon'')
        (latitude (parkingLot.truncate lotA)) (longitude (parkingLot.truncate lotA)) > 10"
    by simp
  note T10 = nearby_within_ten_km [where d = "\<lambda>a b c d. 10" and b = nearBody and st = storeA
      and lot = "parkingLot.truncate lotA" and userLat = "nearBody ''userLat''"
      and userLon = "nearBody ''userLon''" and parkingLots = "findMany storeA"]
  note T11 = nearby_within_ten_km [where d = "\<lambda>a b c d. 10.01" and b = nearBody and st = storeA
      and lot = "parkingLot.truncate lotA" and userLat = "nearBody ''userLat''"
      and userLon = "nearBody ''userLon''" and parkingLots = "findMany storeA"]
  from T10 at have inc: "parkingLot.truncate lotA \<in>
      set (nearbyParkingLots (\<lambda>a b c d. 10) (nearBody ''userLat'') (nearBody ''userLon'') (findMany storeA))"
    by blast
  from T11 above have exc: "parkingLot.truncate lotA \<notin>
      set (nearbyParkingLots (\<lambda>a b c d. 10.01) (nearBody ''userLat'') (nearBody ''userLon'') (findMany storeA))"
    by blast
  from T10 t have r10: "nearby_parking_lots (\<lambda>a b c d. 10) nearBody storeA =
      Json 200 (nearbyParkingLots (\<lambda>a b c d. 10) (nearBody ''userLat'') (nearBody ''userLon'') (findMany storeA))"
    by blast
  from T11 t have r11: "nearby_parking_lots (\<lambda>a b c d. 10.01) nearBody storeA =
      Json 200 (nearbyParkingLots (\<lambda>a b c d. 10.01) (nearBody ''userLat'') (nearBody ''userLon'') (findMany storeA))"
    by blast
  from inc have "nearbyParkingLots (\<lambda>a b c d. 10) (nearBody ''userLat'') (nearBody ''userLon'') (findMany storeA)
      = [parkingLot.truncate lotA]"
    by (simp add: nearbyParkingLots_def rows split: if_splits)
  moreover from exc have "nearbyParkingLots (\<lambda>a b c d. 10.01) (nearBody ''userLat'') (nearBody ''userLon'') (findMany storeA)
      = []"
    by (simp add: nearbyParkingLots_def rows split: if_splits)
  ultimately show ?thesis using t r10 r11 by simp
qed

text \<open>
  C6. The proximity search is claimed to be performed for every request with two numeric
  coordinates, zero included. The handler tests \<open>!userLat || !userLon\<close>: a coordinate of
  value 0 is answered with status 400, as if it were absent.
\<close>

theorem zero_coordinate_rejected:
  assumes "b ''userLat'' = JNum 0 \<or> b ''userLon'' = JNum 0"
  shows "nearby_parking_lots d b st =
           Message 400 ''User location (latitude, longitude) is required''"
  using assms by (auto simp: nearby_parking_lots_def)

theorem zero_coordinate_rejected_witness:
  "equatorBody ''userLat'' = JNum 0 \<and> equatorBody ''userLon'' = JNum 77.5 \<and>
   nearby_parking_lots (\<lambda>a b c d. 0) equatorBody storeA =
     Message 400 ''User location (latitude, longitude) is required''"
proof -
  have lat: "equatorBody ''userLat'' = JNum 0" and lon: "equatorBody ''userLon'' = JNum 77.5"
    by (simp_all add: equatorBody_def request_def)
  from lat have "equatorBody ''userLat'' = JNum 0 \<or> equatorBody ''userLon'' = JNum 0" ..
  from zero_coordinate_rejected [OF this] lat lon show ?thesis by blast
qed

end
